theory Spec2Isabelle
  imports Complex_Main "HOL-Library.Word"
begin

section \<open>Values of the service and of the wrapped SDK\<close>

text \<open>
  The service of \<^verbatim>\<open>src/SolanaService.ts\<close> is glue code over three libraries
  (\<^verbatim>\<open>@solana/web3.js\<close>, \<^verbatim>\<open>@solana/spl-token\<close>, \<^verbatim>\<open>bs58\<close>) and the Node platform
  (\<^verbatim>\<open>fs\<close>, \<^verbatim>\<open>JSON\<close>, \<^verbatim>\<open>console\<close>). The libraries are not part of the repository:
  every function of theirs that the service calls is a field of the record \<open>sdk\<close> below,
  and every theorem holds for an arbitrary such record. The file system is a map from
  paths to contents.
\<close>

type_synonym bytes = "8 word list"
type_synonym pubkey = bytes

text \<open>
  A JavaScript \<^verbatim>\<open>number\<close> is an IEEE-754 double: a real of the form \<open>m * 2 ^ e\<close> with
  \<open>\<bar>m\<bar> < 2 ^ 53\<close>. It is carried by a real. An arithmetic operation gives the double
  nearest to the exact result, a tie going to the even significand. Infinities, NaN and the
  sign of zero are left out: they do not arise from the finite amounts and the decimals of a
  mint.
\<close>

type_synonym number = real

definition round_half_even :: "real \<Rightarrow> int" where
  "round_half_even x =
     (let f = \<lfloor>x\<rfloor> in
      if x - of_int f < 1 / 2 then f
      else if 1 / 2 < x - of_int f then f + 1
      else if even f then f else f + 1)"

text \<open>
  Rounding to a double: 53 significant bits at the binary exponent of \<open>x\<close>, and not below
  the least exponent \<open>- 1074\<close> of the format.
\<close>

definition round_double :: "real \<Rightarrow> number" where
  "round_double x =
     (if x = 0 then 0
      else let e = max (\<lfloor>log 2 \<bar>x\<bar>\<rfloor> - 52) (- 1074)
           in of_int (round_half_even (x / 2 powi e)) * 2 powi e)"

text \<open>The operator \<^verbatim>\<open>*\<close> on numbers.\<close>

definition js_times :: "number \<Rightarrow> number \<Rightarrow> number" where
  "js_times x y = round_double (x * y)"

text \<open>
  \<^verbatim>\<open>Math.pow\<close> for an exponent that is a natural number, as the decimals of a mint are: the
  double nearest to the power. The language leaves the precision of \<^verbatim>\<open>Math.pow\<close> to the
  engine; a power of ten up to \<open>10 ^ 22\<close> is a double itself, and engines return it.
\<close>

definition Math_pow :: "number \<Rightarrow> nat \<Rightarrow> number" where
  "Math_pow b n = round_double (b ^ n)"

text \<open>
  What a \<^verbatim>\<open>throw\<close> carries: an \<^verbatim>\<open>Error\<close> object of the platform or of a library
  (it has a message and no status), or the object literal
  \<^verbatim>\<open>{message: ..., status: ...}\<close> that the service builds itself.
\<close>

datatype exn =
    Error (message: string)
  | StatusError (message: string) (status: nat)

record keypair =
  publicKey :: pubkey
  secretKey :: bytes

record rpc_connection =
  endpoint :: string
  commitment :: string

text \<open>The four fields of the class \<^verbatim>\<open>SolanaConnectionService\<close>.\<close>

record service =
  connection :: rpc_connection
  walletFilePath :: string
  mainNet :: bool
  wallet :: keypair

datatype json =
    JNull
  | JBool bool
  | JNumber number
  | JString string
  | JArray "json list"
  | JObject "(string \<times> json) list"

datatype ExtensionType = MetadataPointer | TransferFeeConfig | MintCloseAuthority

datatype TokenMetadata = TokenMetadata
  (updateAuthority: pubkey) (metadata_mint: pubkey) (name: string) (symbol: string)
  (uri: string) (additionalMetadata: "(string \<times> string) list")

text \<open>
  The five instructions the deployment puts into its transaction, each with the arguments
  in the order the source passes them to the library's builder.
\<close>

datatype instruction =
    CreateAccount pubkey pubkey nat nat pubkey
      \<comment> \<open>\<^verbatim>\<open>SystemProgram.createAccount\<close>: fromPubkey, newAccountPubkey, space, lamports, programId\<close>
  | InitializeMetadataPointer pubkey pubkey pubkey pubkey
      \<comment> \<open>mint, authority, metadata address, programId\<close>
  | InitializeMint pubkey nat pubkey pubkey pubkey
      \<comment> \<open>mint, decimals, mint authority, freeze authority, programId\<close>
  | InitializeMetadata pubkey pubkey pubkey pubkey pubkey string string string
      \<comment> \<open>programId, metadata, updateAuthority, mint, mintAuthority, name, symbol, uri\<close>
  | UpdateField pubkey pubkey pubkey string string
      \<comment> \<open>programId, metadata, updateAuthority, field, value\<close>

type_synonym transaction = "instruction list"

definition new_Transaction :: transaction where
  "new_Transaction = []"

definition Transaction_add :: "transaction \<Rightarrow> instruction list \<Rightarrow> transaction" where
  "Transaction_add tx items = tx @ items"

text \<open>The library's \<^verbatim>\<open>Mint\<close>, \<^verbatim>\<open>RawAccount\<close> and \<^verbatim>\<open>Account\<close> objects, and one entry of
  the reply of \<^verbatim>\<open>getTokenAccountsByOwner\<close>.\<close>

record mint_info =
  mint_supply :: nat
  decimals :: nat
  isInitialized :: bool

record raw_account =
  mint :: pubkey
  owner :: pubkey
  amount :: nat

record account = raw_account +
  address :: pubkey

record keyed_account =
  pubkey :: pubkey
  account_data :: bytes

text \<open>What the service returns to its callers.\<close>

record wallet_info =
  privateKey :: string
  wallet_address :: string

record token_instance =
  contract :: pubkey
  instance_decimals :: nat

record token_balance =
  token_address :: string
  balance :: nat

section \<open>The log of SDK calls\<close>

text \<open>
  Every call that reaches the network or the random generator is logged with its arguments
  and its outcome, in the order the calls are made.
\<close>

datatype sdk_call =
    KeypairGenerate keypair
  | GetMinimumBalanceForRentExemption rpc_connection nat "exn + nat"
  | SendAndConfirmTransaction rpc_connection transaction "keypair list" "exn + string"
  | GetMint rpc_connection pubkey "string option" pubkey "exn + mint_info"
  | GetOrCreateAssociatedTokenAccount rpc_connection keypair pubkey pubkey pubkey "exn + account"
  | GetBalance rpc_connection pubkey "exn + nat"
  | MintTo rpc_connection keypair pubkey pubkey pubkey number "keypair list" pubkey "exn + string"
  | Burn rpc_connection keypair pubkey pubkey keypair number "keypair list" pubkey "exn + string"
  | Transfer rpc_connection keypair pubkey pubkey pubkey number "keypair list" pubkey "exn + string"
  | ConfirmTransaction rpc_connection string string "exn + unit"
  | GetTokenAccountsByOwner rpc_connection pubkey pubkey "exn + keyed_account list"

section \<open>The wrapped SDK and platform, as parameters\<close>

text \<open>
  \<open>'c\<close> is the state outside the process (the ledger, the random generator). A call that
  reads or changes it takes it and returns it; a call that can throw returns a sum.
\<close>

record 'c sdk =
  clusterApiUrl :: "string \<Rightarrow> string"
  TOKEN_2022_PROGRAM_ID :: pubkey
  TYPE_SIZE :: nat
  LENGTH_SIZE :: nat
  getMintLen :: "ExtensionType list \<Rightarrow> nat"
  pack_length :: "TokenMetadata \<Rightarrow> nat"
  Keypair_generate :: "'c \<Rightarrow> keypair \<times> 'c"
  Keypair_fromSecretKey :: "bytes \<Rightarrow> exn + keypair"
  new_PublicKey :: "string \<Rightarrow> exn + pubkey"
  toBase58 :: "pubkey \<Rightarrow> string"
  base58_encode :: "bytes \<Rightarrow> string"
  base58_decode :: "string \<Rightarrow> exn + bytes"
  JSON_parse :: "string \<Rightarrow> exn + json"
  JSON_stringify :: "json \<Rightarrow> string"
  Uint8Array_coerce :: "json option \<Rightarrow> exn + bytes"
  AccountLayout_decode :: "bytes \<Rightarrow> exn + raw_account"
  getMinimumBalanceForRentExemption :: "'c \<Rightarrow> rpc_connection \<Rightarrow> nat \<Rightarrow> (exn + nat) \<times> 'c"
  sendAndConfirmTransaction ::
    "'c \<Rightarrow> rpc_connection \<Rightarrow> transaction \<Rightarrow> keypair list \<Rightarrow> (exn + string) \<times> 'c"
  getMint ::
    "'c \<Rightarrow> rpc_connection \<Rightarrow> pubkey \<Rightarrow> string option \<Rightarrow> pubkey \<Rightarrow> (exn + mint_info) \<times> 'c"
  getOrCreateAssociatedTokenAccount ::
    "'c \<Rightarrow> rpc_connection \<Rightarrow> keypair \<Rightarrow> pubkey \<Rightarrow> pubkey \<Rightarrow> pubkey \<Rightarrow> (exn + account) \<times> 'c"
  getBalance :: "'c \<Rightarrow> rpc_connection \<Rightarrow> pubkey \<Rightarrow> (exn + nat) \<times> 'c"
  mintTo ::
    "'c \<Rightarrow> rpc_connection \<Rightarrow> keypair \<Rightarrow> pubkey \<Rightarrow> pubkey \<Rightarrow> pubkey \<Rightarrow> number \<Rightarrow> keypair list
      \<Rightarrow> pubkey \<Rightarrow> (exn + string) \<times> 'c"
  burn ::
    "'c \<Rightarrow> rpc_connection \<Rightarrow> keypair \<Rightarrow> pubkey \<Rightarrow> pubkey \<Rightarrow> keypair \<Rightarrow> number \<Rightarrow> keypair list
      \<Rightarrow> pubkey \<Rightarrow> (exn + string) \<times> 'c"
  transfer ::
    "'c \<Rightarrow> rpc_connection \<Rightarrow> keypair \<Rightarrow> pubkey \<Rightarrow> pubkey \<Rightarrow> pubkey \<Rightarrow> number \<Rightarrow> keypair list
      \<Rightarrow> pubkey \<Rightarrow> (exn + string) \<times> 'c"
  confirmTransaction :: "'c \<Rightarrow> rpc_connection \<Rightarrow> string \<Rightarrow> string \<Rightarrow> (exn + unit) \<times> 'c"
  getTokenAccountsByOwner ::
    "'c \<Rightarrow> rpc_connection \<Rightarrow> pubkey \<Rightarrow> pubkey \<Rightarrow> (exn + keyed_account list) \<times> 'c"

section \<open>State and control\<close>

text \<open>
  The state a method runs in: the object \<^verbatim>\<open>this\<close>, the files, the state outside the
  process, the log of SDK calls and the console. \<open>denied\<close> marks the paths at which a read
  or a write raises an I/O error.
\<close>

record 'c state =
  this :: service
  files :: "string \<rightharpoonup> string"
  denied :: "string \<Rightarrow> bool"
  ext :: 'c
  calls :: "sdk_call list"
  console :: "string list list"

type_synonym ('c, 'a) prog = "'c state \<Rightarrow> (exn + 'a) \<times> 'c state"

definition ret :: "'a \<Rightarrow> ('c, 'a) prog" where
  "ret x = (\<lambda>s. (Inr x, s))"

definition throw :: "exn \<Rightarrow> ('c, 'a) prog" where
  "throw e = (\<lambda>s. (Inl e, s))"

text \<open>Sequencing (\<^verbatim>\<open>;\<close> and \<^verbatim>\<open>await\<close>): a throw skips the rest.\<close>

definition bind_do :: "('c, 'a) prog \<Rightarrow> ('a \<Rightarrow> ('c, 'b) prog) \<Rightarrow> ('c, 'b) prog" where
  "bind_do m f = (\<lambda>s. case m s of (Inl e, s') \<Rightarrow> (Inl e, s') | (Inr x, s') \<Rightarrow> f x s')"

text \<open>\<^verbatim>\<open>try { m } catch (error) { h error }\<close>.\<close>

definition try_catch :: "('c, 'a) prog \<Rightarrow> (exn \<Rightarrow> ('c, 'a) prog) \<Rightarrow> ('c, 'a) prog" where
  "try_catch m h = (\<lambda>s. case m s of (Inl e, s') \<Rightarrow> h e s' | (Inr x, s') \<Rightarrow> (Inr x, s'))"

text \<open>A pure library call that may throw.\<close>

definition liftE :: "exn + 'a \<Rightarrow> ('c, 'a) prog" where
  "liftE r = (\<lambda>s. (r, s))"

text \<open>Reading \<^verbatim>\<open>this\<close> at the point of use.\<close>

definition with_this :: "(service \<Rightarrow> ('c, 'a) prog) \<Rightarrow> ('c, 'a) prog" where
  "with_this f = (\<lambda>s. f (this s) s)"

text \<open>A call into the SDK that uses the outside state: it is logged with its outcome.\<close>

definition external ::
  "((exn + 'a) \<Rightarrow> sdk_call) \<Rightarrow> ('c \<Rightarrow> (exn + 'a) \<times> 'c) \<Rightarrow> ('c, 'a) prog" where
  "external ev f = (\<lambda>s. case f (ext s) of
     (r, c') \<Rightarrow> (r, s\<lparr>ext := c', calls := calls s @ [ev r]\<rparr>))"

definition console_log :: "string list \<Rightarrow> ('c, unit) prog" where
  "console_log args = (\<lambda>s. (Inr (), s\<lparr>console := console s @ [args]\<rparr>))"

definition console_error :: "string list \<Rightarrow> ('c, unit) prog" where
  "console_error args = (\<lambda>s. (Inr (), s\<lparr>console := console s @ [args]\<rparr>))"

subsection \<open>The file system\<close>

definition fs_existsSync :: "string \<Rightarrow> ('c, bool) prog" where
  "fs_existsSync path = (\<lambda>s. (Inr (files s path \<noteq> None), s))"

definition fs_readFileSync :: "string \<Rightarrow> ('c, string) prog" where
  "fs_readFileSync path = (\<lambda>s. case files s path of
       None \<Rightarrow> (Inl (Error ''ENOENT: no such file or directory''), s)
     | Some data \<Rightarrow>
         if denied s path then (Inl (Error ''EACCES: permission denied''), s)
         else (Inr data, s))"

definition fs_writeFileSync :: "string \<Rightarrow> string \<Rightarrow> ('c, unit) prog" where
  "fs_writeFileSync path data = (\<lambda>s.
     if denied s path then (Inl (Error ''EACCES: permission denied''), s)
     else (Inr (), s\<lparr>files := (files s)(path \<mapsto> data)\<rparr>))"


subsection \<open>Calls into the SDK\<close>

definition call_Keypair_generate :: "'c sdk \<Rightarrow> ('c, keypair) prog" where
  "call_Keypair_generate S = (\<lambda>s. case Keypair_generate S (ext s) of
     (kp, c') \<Rightarrow> (Inr kp, s\<lparr>ext := c', calls := calls s @ [KeypairGenerate kp]\<rparr>))"

definition call_getMinimumBalanceForRentExemption ::
  "'c sdk \<Rightarrow> rpc_connection \<Rightarrow> nat \<Rightarrow> ('c, nat) prog" where
  "call_getMinimumBalanceForRentExemption S conn len =
     external (GetMinimumBalanceForRentExemption conn len)
       (\<lambda>c. getMinimumBalanceForRentExemption S c conn len)"

definition call_sendAndConfirmTransaction ::
  "'c sdk \<Rightarrow> rpc_connection \<Rightarrow> transaction \<Rightarrow> keypair list \<Rightarrow> ('c, string) prog" where
  "call_sendAndConfirmTransaction S conn tx signers =
     external (SendAndConfirmTransaction conn tx signers)
       (\<lambda>c. sendAndConfirmTransaction S c conn tx signers)"

definition call_getMint ::
  "'c sdk \<Rightarrow> rpc_connection \<Rightarrow> pubkey \<Rightarrow> string option \<Rightarrow> pubkey \<Rightarrow> ('c, mint_info) prog" where
  "call_getMint S conn m cm prog_id =
     external (GetMint conn m cm prog_id) (\<lambda>c. getMint S c conn m cm prog_id)"

definition call_getOrCreateAssociatedTokenAccount ::
  "'c sdk \<Rightarrow> rpc_connection \<Rightarrow> keypair \<Rightarrow> pubkey \<Rightarrow> pubkey \<Rightarrow> pubkey \<Rightarrow> ('c, account) prog" where
  "call_getOrCreateAssociatedTokenAccount S conn p m ow prog_id =
     external (GetOrCreateAssociatedTokenAccount conn p m ow prog_id)
       (\<lambda>c. getOrCreateAssociatedTokenAccount S c conn p m ow prog_id)"

definition call_getBalance :: "'c sdk \<Rightarrow> rpc_connection \<Rightarrow> pubkey \<Rightarrow> ('c, nat) prog" where
  "call_getBalance S conn pk = external (GetBalance conn pk) (\<lambda>c. getBalance S c conn pk)"

definition call_mintTo ::
  "'c sdk \<Rightarrow> rpc_connection \<Rightarrow> keypair \<Rightarrow> pubkey \<Rightarrow> pubkey \<Rightarrow> pubkey \<Rightarrow> number \<Rightarrow> keypair list
    \<Rightarrow> pubkey \<Rightarrow> ('c, string) prog" where
  "call_mintTo S conn p m dest auth amt signers prog_id =
     external (MintTo conn p m dest auth amt signers prog_id)
       (\<lambda>c. mintTo S c conn p m dest auth amt signers prog_id)"

definition call_burn ::
  "'c sdk \<Rightarrow> rpc_connection \<Rightarrow> keypair \<Rightarrow> pubkey \<Rightarrow> pubkey \<Rightarrow> keypair \<Rightarrow> number \<Rightarrow> keypair list
    \<Rightarrow> pubkey \<Rightarrow> ('c, string) prog" where
  "call_burn S conn p acc m ow amt signers prog_id =
     external (Burn conn p acc m ow amt signers prog_id)
       (\<lambda>c. burn S c conn p acc m ow amt signers prog_id)"

definition call_transfer ::
  "'c sdk \<Rightarrow> rpc_connection \<Rightarrow> keypair \<Rightarrow> pubkey \<Rightarrow> pubkey \<Rightarrow> pubkey \<Rightarrow> number \<Rightarrow> keypair list
    \<Rightarrow> pubkey \<Rightarrow> ('c, string) prog" where
  "call_transfer S conn p src dest ow amt signers prog_id =
     external (Transfer conn p src dest ow amt signers prog_id)
       (\<lambda>c. transfer S c conn p src dest ow amt signers prog_id)"

definition call_confirmTransaction ::
  "'c sdk \<Rightarrow> rpc_connection \<Rightarrow> string \<Rightarrow> string \<Rightarrow> ('c, unit) prog" where
  "call_confirmTransaction S conn tx cm =
     external (ConfirmTransaction conn tx cm) (\<lambda>c. confirmTransaction S c conn tx cm)"

definition call_getTokenAccountsByOwner ::
  "'c sdk \<Rightarrow> rpc_connection \<Rightarrow> pubkey \<Rightarrow> pubkey \<Rightarrow> ('c, keyed_account list) prog" where
  "call_getTokenAccountsByOwner S conn ow prog_id =
     external (GetTokenAccountsByOwner conn ow prog_id)
       (\<lambda>c. getTokenAccountsByOwner S c conn ow prog_id)"

subsection \<open>The credential file's contents\<close>

text \<open>\<^verbatim>\<open>Array.from(wallet.secretKey)\<close>: the bytes as an array of numbers.\<close>

definition byte_number :: "8 word \<Rightarrow> number" where
  "byte_number b = real (unat b)"

definition Array_from :: "bytes \<Rightarrow> json" where
  "Array_from bs = JArray (map (\<lambda>b. JNumber (byte_number b)) bs)"

text \<open>
  \<^verbatim>\<open>walletData.privateKey\<close>: reading a property of \<^verbatim>\<open>null\<close> throws a TypeError; an object
  gives the property or \<^verbatim>\<open>undefined\<close> (\<open>None\<close>); a number, a string, a boolean and an array
  have no property of that name. \<open>JObject\<close> lists each key of the object once.
\<close>

fun get_privateKey :: "json \<Rightarrow> exn + json option" where
  "get_privateKey JNull =
     Inl (Error ''Cannot read properties of null (reading 'privateKey')'')"
| "get_privateKey (JObject kvs) = Inr (map_of kvs ''privateKey'')"
| "get_privateKey _ = Inr None"

text \<open>The conversion of a number to a byte: truncate towards zero, then modulo 256.\<close>

definition ToUint8 :: "number \<Rightarrow> 8 word" where
  "ToUint8 x = word_of_int (if 0 \<le> x then \<lfloor>x\<rfloor> else \<lceil>x\<rceil>)"

fun numbers_of :: "json list \<Rightarrow> number list option" where
  "numbers_of [] = Some []"
| "numbers_of (JNumber x # js) = map_option ((#) x) (numbers_of js)"
| "numbers_of (_ # js) = None"

text \<open>
  \<^verbatim>\<open>new Uint8Array(v)\<close>: an array of numbers is converted element by element. What the
  platform does with any other value (\<^verbatim>\<open>undefined\<close>, a length, an array holding other
  things than numbers) is left to the parameter \<open>Uint8Array_coerce\<close>.
\<close>

definition new_Uint8Array :: "'c sdk \<Rightarrow> json option \<Rightarrow> exn + bytes" where
  "new_Uint8Array S v = (case v of
       Some (JArray xs) \<Rightarrow>
         (case numbers_of xs of
            Some ns \<Rightarrow> Inr (map ToUint8 ns)
          | None \<Rightarrow> Uint8Array_coerce S v)
     | _ \<Rightarrow> Uint8Array_coerce S v)"

section \<open>The service\<close>

subsection \<open>Construction\<close>

text \<open>The method \<^verbatim>\<open>_getOrCreateWallet\<close> of the source.\<close>

definition getOrCreateWallet :: "'c sdk \<Rightarrow> ('c, keypair) prog" where
  "getOrCreateWallet S =
     try_catch
       (bind_do (with_this (\<lambda>this. fs_existsSync (walletFilePath this))) (\<lambda>exists.
          if exists then
            bind_do (with_this (\<lambda>this. fs_readFileSync (walletFilePath this))) (\<lambda>fileText.
            bind_do (liftE (JSON_parse S fileText)) (\<lambda>walletData.
            bind_do (liftE (get_privateKey walletData)) (\<lambda>privateKey.
            bind_do (liftE (new_Uint8Array S privateKey)) (\<lambda>secret.
            bind_do (liftE (Keypair_fromSecretKey S secret)) (\<lambda>wallet.
            bind_do (console_log [''Loaded existing SOL wallet: '', toBase58 S (publicKey wallet)])
              (\<lambda>_. ret wallet))))))
          else
            bind_do (call_Keypair_generate S) (\<lambda>wallet.
            let walletJson = JObject [(''privateKey'', Array_from (secretKey wallet))] in
            bind_do (with_this (\<lambda>this.
                       fs_writeFileSync (walletFilePath this) (JSON_stringify S walletJson)))
              (\<lambda>_.
            bind_do (console_log [''Created new wallet'']) (\<lambda>_. ret wallet)))))
       (\<lambda>error.
          bind_do (console_error [''Error loading or creating wallet:'', message error]) (\<lambda>_.
          throw (StatusError
            (''Error reading or creating solana wallet: '' @ message error) 500)))"

text \<open>
  The constructor assigns the four fields in the order of the source. The object it starts
  from is the freshly allocated one: no field of it is read before it is assigned.
\<close>

definition new_Connection :: "string \<Rightarrow> string \<Rightarrow> rpc_connection" where
  "new_Connection url cm = \<lparr>endpoint = url, commitment = cm\<rparr>"

definition assign_connection :: "rpc_connection \<Rightarrow> ('c, unit) prog" where
  "assign_connection v = (\<lambda>s. (Inr (), s\<lparr>this := (this s)\<lparr>connection := v\<rparr>\<rparr>))"

definition assign_mainNet :: "bool \<Rightarrow> ('c, unit) prog" where
  "assign_mainNet v = (\<lambda>s. (Inr (), s\<lparr>this := (this s)\<lparr>mainNet := v\<rparr>\<rparr>))"

definition assign_walletFilePath :: "string \<Rightarrow> ('c, unit) prog" where
  "assign_walletFilePath v = (\<lambda>s. (Inr (), s\<lparr>this := (this s)\<lparr>walletFilePath := v\<rparr>\<rparr>))"

definition assign_wallet :: "keypair \<Rightarrow> ('c, unit) prog" where
  "assign_wallet v = (\<lambda>s. (Inr (), s\<lparr>this := (this s)\<lparr>wallet := v\<rparr>\<rparr>))"

definition constructor :: "'c sdk \<Rightarrow> ('c, unit) prog" where
  "constructor S =
     bind_do (assign_connection (new_Connection (clusterApiUrl S ''devnet'') ''confirmed'')) (\<lambda>_.
     bind_do (assign_mainNet False) (\<lambda>_.
     bind_do (assign_walletFilePath ''solWallet.json'') (\<lambda>_.
     bind_do (getOrCreateWallet S) (\<lambda>w.
     assign_wallet w))))"

subsection \<open>Wallets and token deployment\<close>

definition createWallet :: "'c sdk \<Rightarrow> ('c, wallet_info) prog" where
  "createWallet S =
     bind_do (call_Keypair_generate S) (\<lambda>walletBase.
     let privateKey = base58_encode S (secretKey walletBase);
         address = toBase58 S (publicKey walletBase)
     in ret \<lparr>privateKey = privateKey, wallet_address = address\<rparr>)"

definition deployTokenContract :: "'c sdk \<Rightarrow> string \<Rightarrow> string \<Rightarrow> string \<Rightarrow> ('c, string) prog" where
  "deployTokenContract S = (\<lambda>tokenName tokenSymbol image.
     bind_do (call_Keypair_generate S) (\<lambda>mintKeypair.
     let mint = publicKey mintKeypair;
         decimals = 9
     in
     with_this (\<lambda>this.
     let metaData = TokenMetadata (publicKey (wallet this)) mint tokenName tokenSymbol image
                      [(''description'', ''Only Possible On Solana'')];
         metadataExtension = TYPE_SIZE S + LENGTH_SIZE S;
         metadataLen = pack_length S metaData;
         mintLen = getMintLen S [MetadataPointer]
     in
     bind_do (call_getMinimumBalanceForRentExemption S (connection this)
                (mintLen + metadataExtension + metadataLen)) (\<lambda>lamports.
     let createAccountInstruction =
           CreateAccount (publicKey (wallet this)) mint mintLen lamports (TOKEN_2022_PROGRAM_ID S);
         initializeMetadataPointerInstruction =
           InitializeMetadataPointer mint (publicKey (wallet this)) mint (TOKEN_2022_PROGRAM_ID S);
         initializeMintInstruction =
           InitializeMint mint decimals (publicKey (wallet this)) (publicKey (wallet this))
             (TOKEN_2022_PROGRAM_ID S);
         initializeMetadataInstruction =
           InitializeMetadata (TOKEN_2022_PROGRAM_ID S) mint (publicKey (wallet this)) mint
             (publicKey (wallet this)) (name metaData) (symbol metaData) (uri metaData)
     in
     case additionalMetadata metaData of
       [] \<Rightarrow> throw (Error ''Cannot read properties of undefined (reading '0')'')
     | (field, val) # _ \<Rightarrow>
     let updateFieldInstruction =
           UpdateField (TOKEN_2022_PROGRAM_ID S) mint (publicKey (wallet this)) field val;
         transaction = Transaction_add new_Transaction
           [createAccountInstruction,
            initializeMetadataPointerInstruction,
            initializeMintInstruction,
            initializeMetadataInstruction,
            updateFieldInstruction]
     in
     bind_do (call_sendAndConfirmTransaction S (connection this) transaction
                [wallet this, mintKeypair]) (\<lambda>transactionSignature.
     bind_do (console_log [[CHR 0x0A] @ ''Create Mint Account:'',
                ''https://solana.fm/tx/'' @ transactionSignature @ ''?cluster=devnet-solana''])
       (\<lambda>_.
     ret (toBase58 S mint)))))))"

definition getVaultWalletAddress :: "'c sdk \<Rightarrow> ('c, string) prog" where
  "getVaultWalletAddress S = with_this (\<lambda>this. ret (toBase58 S (publicKey (wallet this))))"


subsection \<open>Queries\<close>

definition getTokenInstanceAndDecimals :: "'c sdk \<Rightarrow> string \<Rightarrow> ('c, token_instance) prog" where
  "getTokenInstanceAndDecimals S = (\<lambda>token_address.
     try_catch
       (bind_do (liftE (new_PublicKey S token_address)) (\<lambda>mint.
        bind_do (with_this (\<lambda>this.
                   call_getMint S (connection this) mint (Some ''confirmed'')
                     (TOKEN_2022_PROGRAM_ID S))) (\<lambda>mintInfo.
        ret \<lparr>contract = mint, instance_decimals = decimals mintInfo\<rparr>)))
       (\<lambda>error.
          bind_do (console_error [''Error loading contract:'', message error]) (\<lambda>_.
          throw error)))"

text \<open>The three \<^verbatim>\<open>null\<close> arguments of the source select the library's defaults.\<close>

definition getATC :: "'c sdk \<Rightarrow> keypair \<Rightarrow> pubkey \<Rightarrow> pubkey \<Rightarrow> ('c, account) prog" where
  "getATC S = (\<lambda>payer mint owner.
     with_this (\<lambda>this.
       call_getOrCreateAssociatedTokenAccount S (connection this) payer mint owner
         (TOKEN_2022_PROGRAM_ID S)))"

definition getSolBalance :: "'c sdk \<Rightarrow> ('c, nat) prog" where
  "getSolBalance S =
     try_catch
       (with_this (\<lambda>this. call_getBalance S (connection this) (publicKey (wallet this))))
       (\<lambda>error.
          bind_do (console_error [''Error getting SOL balance:'', message error]) (\<lambda>_.
          throw error))"

text \<open>
  The loop of \<^verbatim>\<open>getWalletTokenBalance\<close>: each account's data is decoded and one entry is
  pushed onto \<open>tokenBalances\<close>; a decoding error leaves the loop.
\<close>

fun forEach_tokenAccount ::
  "'c sdk \<Rightarrow> keyed_account list \<Rightarrow> token_balance list \<Rightarrow> exn + token_balance list" where
  "forEach_tokenAccount S [] tokenBalances = Inr tokenBalances"
| "forEach_tokenAccount S (tokenAccount # rest) tokenBalances =
     (case AccountLayout_decode S (account_data tokenAccount) of
        Inl e \<Rightarrow> Inl e
      | Inr accountData \<Rightarrow>
          forEach_tokenAccount S rest
            (tokenBalances @
               [\<lparr>token_address = toBase58 S (mint accountData),
                 balance = amount accountData\<rparr>]))"

definition getWalletTokenBalance :: "'c sdk \<Rightarrow> string \<Rightarrow> ('c, token_balance list) prog" where
  "getWalletTokenBalance S = (\<lambda>address.
     bind_do (liftE (new_PublicKey S address)) (\<lambda>ownerKey.
     bind_do (with_this (\<lambda>this.
                call_getTokenAccountsByOwner S (connection this) ownerKey
                  (TOKEN_2022_PROGRAM_ID S))) (\<lambda>tokenAccounts.
     let tokenBalances = [] in
     liftE (forEach_tokenAccount S tokenAccounts tokenBalances))))"

subsection \<open>Minting, burning and transferring\<close>

definition mintTokensToUser ::
  "'c sdk \<Rightarrow> string \<Rightarrow> string \<Rightarrow> number \<Rightarrow> ('c, string) prog" where
  "mintTokensToUser S = (\<lambda>tokenAddress toAddress amount.
     try_catch
       (bind_do (liftE (new_PublicKey S tokenAddress)) (\<lambda>mint.
        bind_do (liftE (new_PublicKey S toAddress)) (\<lambda>to.
        bind_do (with_this (\<lambda>this. getATC S (wallet this) mint to)) (\<lambda>tokenAccount.
        bind_do (with_this (\<lambda>this.
                   call_getMint S (connection this) mint None (TOKEN_2022_PROGRAM_ID S)))
          (\<lambda>mintInfo.
        let adjustedAmount = js_times amount (Math_pow 10 (decimals mintInfo)) in
        bind_do (with_this (\<lambda>this.
                   call_mintTo S (connection this) (wallet this) mint (address tokenAccount)
                     (publicKey (wallet this)) adjustedAmount [wallet this]
                     (TOKEN_2022_PROGRAM_ID S))) (\<lambda>tx.
        bind_do (with_this (\<lambda>this. call_confirmTransaction S (connection this) tx ''finalized''))
          (\<lambda>_.
        ret tx)))))))
       (\<lambda>error.
          bind_do (console_error [''Error minting tokens:'', message error]) (\<lambda>_.
          throw error)))"

text \<open>
  \<^verbatim>\<open>new Uint8Array(walletSecretKey)\<close> copies the decoded bytes; the copy is the same byte
  sequence.
\<close>

definition burnTokensFromUser ::
  "'c sdk \<Rightarrow> string \<Rightarrow> string \<Rightarrow> number \<Rightarrow> ('c, string) prog" where
  "burnTokensFromUser S = (\<lambda>tokenAddress wallet amount.
     try_catch
       (bind_do (liftE (base58_decode S wallet)) (\<lambda>walletSecretKey.
        bind_do (liftE (new_PublicKey S tokenAddress)) (\<lambda>mint.
        bind_do (try_catch
                   (liftE (Keypair_fromSecretKey S walletSecretKey))
                   (\<lambda>error. throw (StatusError
                      ''Invalid secret key provided for burnTokensFromUser'' 400)))
          (\<lambda>userWallet.
        bind_do (with_this (\<lambda>this. getATC S (service.wallet this) mint (publicKey userWallet)))
          (\<lambda>tokenAccount.
        bind_do (with_this (\<lambda>this.
                   call_getMint S (connection this) mint None (TOKEN_2022_PROGRAM_ID S)))
          (\<lambda>mintInfo.
        let adjustedAmount = js_times amount (Math_pow 10 (decimals mintInfo)) in
        bind_do (with_this (\<lambda>this.
                   call_burn S (connection this) (service.wallet this) (address tokenAccount) mint
                     userWallet adjustedAmount [userWallet] (TOKEN_2022_PROGRAM_ID S))) (\<lambda>tx.
        bind_do (with_this (\<lambda>this. call_confirmTransaction S (connection this) tx ''finalized''))
          (\<lambda>_.
        ret tx))))))))
       (\<lambda>error.
          bind_do (console_error [''Error burning tokens:'', message error]) (\<lambda>_.
          throw error)))"

definition transferTokens ::
  "'c sdk \<Rightarrow> string \<Rightarrow> string \<Rightarrow> number \<Rightarrow> string \<Rightarrow> ('c, string) prog" where
  "transferTokens S = (\<lambda>tokenAddress to amount wallet.
     bind_do (liftE (base58_decode S wallet)) (\<lambda>walletSecretKey.
     bind_do (try_catch
                (liftE (Keypair_fromSecretKey S walletSecretKey))
                (\<lambda>error. throw (StatusError
                   ''Invalid secret key provided for transferTokens'' 400)))
       (\<lambda>userWallet.
     try_catch
       (bind_do (liftE (new_PublicKey S tokenAddress)) (\<lambda>mint.
        bind_do (liftE (new_PublicKey S to)) (\<lambda>toPublicKey.
        bind_do (with_this (\<lambda>this. getATC S (service.wallet this) mint (publicKey userWallet)))
          (\<lambda>fromTokenAccount.
        bind_do (with_this (\<lambda>this. getATC S (service.wallet this) mint toPublicKey))
          (\<lambda>toTokenAccount.
        bind_do (with_this (\<lambda>this.
                   call_getMint S (connection this) mint None (TOKEN_2022_PROGRAM_ID S)))
          (\<lambda>mintInfo.
        let adjustedAmount = js_times amount (Math_pow 10 (decimals mintInfo)) in
        bind_do (with_this (\<lambda>this.
                   call_transfer S (connection this) (service.wallet this)
                     (address fromTokenAccount) (address toTokenAccount) (publicKey userWallet)
                     adjustedAmount [userWallet] (TOKEN_2022_PROGRAM_ID S))) (\<lambda>tx.
        bind_do (with_this (\<lambda>this. call_confirmTransaction S (connection this) tx ''finalized''))
          (\<lambda>_.
        ret tx))))))))
       (\<lambda>error.
          bind_do (console_error [''Error transferring tokens:'', message error]) (\<lambda>_.
          throw error)))))"


section \<open>Reading the log\<close>

text \<open>The calls a run has added to the log.\<close>

definition new_calls :: "'c state \<Rightarrow> 'c state \<Rightarrow> sdk_call list" where
  "new_calls s s' = drop (length (calls s)) (calls s')"




text \<open>The keypairs that the generator produced, in order.\<close>

fun generated_keypairs :: "sdk_call list \<Rightarrow> keypair list" where
  "generated_keypairs [] = []"
| "generated_keypairs (KeypairGenerate kp # cs) = kp # generated_keypairs cs"
| "generated_keypairs (_ # cs) = generated_keypairs cs"

section \<open>A small SDK instance and two states, for concrete runs\<close>

text \<open>
  An instance of the parameters on which the service can be run by evaluation: keys are
  two equal bytes, the generator counts, every remote call succeeds.
\<close>

definition walletJson0 :: json where
  "walletJson0 = JObject [(''privateKey'', JArray [JNumber 0, JNumber 0])]"

text \<open>The text \<^verbatim>\<open>{"privateKey":[0,0]}\<close>.\<close>

definition walletText0 :: string where
  "walletText0 = ''{'' @ [CHR 0x22] @ ''privateKey'' @ [CHR 0x22] @ '':[0,0]}''"

definition sdk0 :: "nat sdk" where
  "sdk0 = \<lparr>
     clusterApiUrl = (\<lambda>cluster. ''https://api.'' @ cluster @ ''.solana.com''),
     TOKEN_2022_PROGRAM_ID = [22],
     TYPE_SIZE = 2,
     LENGTH_SIZE = 2,
     getMintLen = (\<lambda>exts. 166 + 68 * length exts),
     pack_length = (\<lambda>md. 80 + length (name md) + length (symbol md) + length (uri md)),
     Keypair_generate = (\<lambda>c. (\<lparr>publicKey = [of_nat c], secretKey = [of_nat c, of_nat c]\<rparr>, Suc c)),
     Keypair_fromSecretKey = (\<lambda>sk. case sk of
         [a, b] \<Rightarrow> if a = b then Inr \<lparr>publicKey = [b], secretKey = sk\<rparr>
                   else Inl (Error ''provided secretKey is invalid'')
       | _ \<Rightarrow> Inl (Error ''bad secret key size'')),
     new_PublicKey = (\<lambda>str. if str = [] then Inl (Error ''Invalid public key input'')
                            else Inr (map (\<lambda>ch. if ch = CHR ''1'' then 0 else 1) str)),
     toBase58 = map (\<lambda>b. if b = 0 then CHR ''1'' else CHR ''2''),
     base58_encode = map (\<lambda>b. if b = 0 then CHR ''1'' else CHR ''2''),
     base58_decode = (\<lambda>str. if CHR ''0'' \<in> set str then Inl (Error ''Non-base58 character'')
                            else Inr (map (\<lambda>ch. if ch = CHR ''1'' then 0 else 1) str)),
     JSON_parse = (\<lambda>str. if str = walletText0 then Inr walletJson0
                         else if str = ''null'' then Inr JNull
                         else Inl (Error ''Unexpected token'')),
     JSON_stringify = (\<lambda>j. if j = walletJson0 then walletText0 else ''null''),
     Uint8Array_coerce = (\<lambda>v. Inr []),
     AccountLayout_decode = (\<lambda>bs. case bs of
         [m, a] \<Rightarrow> Inr \<lparr>mint = [m], owner = [], amount = unat a\<rparr>
       | _ \<Rightarrow> Inl (Error ''The value of offset is out of range'')),
     getMinimumBalanceForRentExemption = (\<lambda>c conn len. (Inr (7 * len), c)),
     sendAndConfirmTransaction = (\<lambda>c conn tx signers. (Inr ''sig'', Suc c)),
     getMint = (\<lambda>c conn m cm prog_id.
       (Inr \<lparr>mint_supply = 0, decimals = 9, isInitialized = True\<rparr>, c)),
     getOrCreateAssociatedTokenAccount = (\<lambda>c conn p m ow prog_id.
       (Inr \<lparr>mint = m, owner = ow, amount = 0, address = m @ ow\<rparr>, Suc c)),
     getBalance = (\<lambda>c conn pk. (Inr 5, c)),
     mintTo = (\<lambda>c conn p m dest auth amt signers prog_id. (Inr ''tx'', Suc c)),
     burn = (\<lambda>c conn p acc m ow amt signers prog_id. (Inr ''tx'', Suc c)),
     transfer = (\<lambda>c conn p src dest ow amt signers prog_id. (Inr ''tx'', Suc c)),
     confirmTransaction = (\<lambda>c conn tx cm. (Inr (), c)),
     getTokenAccountsByOwner = (\<lambda>c conn ow prog_id.
       (Inr [\<lparr>pubkey = [1], account_data = [7, 3]\<rparr>, \<lparr>pubkey = [2], account_data = [8, 250]\<rparr>], c))
   \<rparr>"


text \<open>The same instance with the network down: the balance query throws.\<close>

definition sdk_down :: "nat sdk" where
  "sdk_down = sdk0\<lparr>getBalance := (\<lambda>c conn pk. (Inl (Error ''fetch failed''), c))\<rparr>"

text \<open>A state before construction: no file, and the object's fields not yet assigned.\<close>

definition service0 :: service where
  "service0 = \<lparr>connection = \<lparr>endpoint = [], commitment = []\<rparr>, walletFilePath = [],
     mainNet = True, wallet = \<lparr>publicKey = [], secretKey = []\<rparr>\<rparr>"

definition state0 :: "nat state" where
  "state0 = \<lparr>this = service0, files = Map.empty, denied = (\<lambda>path. False), ext = 0,
     calls = [], console = []\<rparr>"

text \<open>A state after construction and after the log was cleared.\<close>

definition service1 :: service where
  "service1 = \<lparr>connection = \<lparr>endpoint = ''https://api.devnet.solana.com'',
       commitment = ''confirmed''\<rparr>,
     walletFilePath = ''solWallet.json'', mainNet = False,
     wallet = \<lparr>publicKey = [0], secretKey = [0, 0]\<rparr>\<rparr>"

definition state1 :: "nat state" where
  "state1 = \<lparr>this = service1,
     files = [''solWallet.json'' \<mapsto> walletText0],
     denied = (\<lambda>path. False), ext = 1, calls = [], console = []\<rparr>"


section \<open>Properties of programs\<close>

text \<open>A program keeps \<^verbatim>\<open>this\<close> when no run of it changes a field of the object.\<close>

definition keeps_this :: "('c, 'a) prog \<Rightarrow> bool" where
  "keeps_this m = (\<forall>s. this (snd (m s)) = this s)"

text \<open>The error of a logged call that threw.\<close>

fun thrown_by :: "exn + 'a \<Rightarrow> exn option" where
  "thrown_by (Inl e) = Some e"
| "thrown_by (Inr x) = None"

fun outcome_error :: "sdk_call \<Rightarrow> exn option" where
  "outcome_error (KeypairGenerate kp) = None"
| "outcome_error (GetMinimumBalanceForRentExemption conn len r) = thrown_by r"
| "outcome_error (SendAndConfirmTransaction conn tx signers r) = thrown_by r"
| "outcome_error (GetMint conn m cm prog_id r) = thrown_by r"
| "outcome_error (GetOrCreateAssociatedTokenAccount conn p m ow prog_id r) = thrown_by r"
| "outcome_error (GetBalance conn pk r) = thrown_by r"
| "outcome_error (MintTo conn p m dest auth amt signers prog_id r) = thrown_by r"
| "outcome_error (Burn conn p acc m ow amt signers prog_id r) = thrown_by r"
| "outcome_error (Transfer conn p src dest ow amt signers prog_id r) = thrown_by r"
| "outcome_error (ConfirmTransaction conn tx cm r) = thrown_by r"
| "outcome_error (GetTokenAccountsByOwner conn ow prog_id r) = thrown_by r"

text \<open>The errors that the logged calls threw, in order.\<close>

fun failed_calls :: "sdk_call list \<Rightarrow> exn list" where
  "failed_calls [] = []"
| "failed_calls (c # cs) =
     (case outcome_error c of
        Some e \<Rightarrow> e # failed_calls cs
      | None \<Rightarrow> failed_calls cs)"

text \<open>
  The error of the first account, in the order of the reply, whose data the library's
  \<^verbatim>\<open>AccountLayout.decode\<close> does not accept.
\<close>

fun first_decode_error :: "'c sdk \<Rightarrow> keyed_account list \<Rightarrow> exn option" where
  "first_decode_error S [] = None"
| "first_decode_error S (tokenAccount # rest) =
     (case AccountLayout_decode S (account_data tokenAccount) of
        Inl e \<Rightarrow> Some e
      | Inr accountData \<Rightarrow> first_decode_error S rest)"

text \<open>Whether a thrown value carries a status code.\<close>

fun carries_status :: "exn \<Rightarrow> bool" where
  "carries_status (Error msg) = False"
| "carries_status (StatusError msg code) = True"



section \<open>Unfolding sets\<close>

lemmas prog_defs = ret_def throw_def bind_do_def try_catch_def liftE_def with_this_def
  external_def console_log_def console_error_def fs_existsSync_def fs_readFileSync_def
  fs_writeFileSync_def call_Keypair_generate_def

lemmas call_defs = call_getMinimumBalanceForRentExemption_def
  call_sendAndConfirmTransaction_def call_getMint_def call_getOrCreateAssociatedTokenAccount_def
  call_getBalance_def call_mintTo_def call_burn_def call_transfer_def call_confirmTransaction_def
  call_getTokenAccountsByOwner_def

section \<open>The fields of the service object\<close>

lemma keeps_this_ret [simp]: "keeps_this (ret x)"
  by (simp add: keeps_this_def ret_def)

lemma keeps_this_throw [simp]: "keeps_this (throw e)"
  by (simp add: keeps_this_def throw_def)

lemma keeps_this_liftE [simp]: "keeps_this (liftE r)"
  by (simp add: keeps_this_def liftE_def)

lemma keeps_this_console [simp]:
  "keeps_this (console_log a)" "keeps_this (console_error a)"
  by (simp_all add: keeps_this_def console_log_def console_error_def)

lemma keeps_this_external [simp]: "keeps_this (external ev f)"
  by (simp add: keeps_this_def external_def split: prod.splits)

lemma keeps_this_generate [simp]: "keeps_this (call_Keypair_generate S)"
  by (simp add: keeps_this_def call_Keypair_generate_def split: prod.splits)

lemma keeps_this_fs [simp]:
  "keeps_this (fs_existsSync p)"
  "keeps_this (fs_readFileSync p)"
  "keeps_this (fs_writeFileSync p d)"
  by (simp_all add: keeps_this_def fs_existsSync_def fs_readFileSync_def fs_writeFileSync_def
      split: option.splits)

lemma keeps_this_bind [simp]:
  assumes "keeps_this m" and "\<And>x. keeps_this (f x)"
  shows "keeps_this (bind_do m f)"
  unfolding keeps_this_def
proof
  fix s
  show "this (snd (bind_do m f s)) = this s"
  proof (cases "m s")
    case (Pair r s')
    from assms(1) Pair have s': "this s' = this s"
      unfolding keeps_this_def by (metis snd_conv)
    show ?thesis
    proof (cases r)
      case (Inl e)
      with Pair s' show ?thesis by (simp add: bind_do_def)
    next
      case (Inr x)
      from assms(2) have "this (snd (f x s')) = this s'"
        unfolding keeps_this_def by blast
      with Pair Inr s' show ?thesis by (simp add: bind_do_def)
    qed
  qed
qed

lemma keeps_this_catch [simp]:
  assumes "keeps_this m" and "\<And>e. keeps_this (h e)"
  shows "keeps_this (try_catch m h)"
  unfolding keeps_this_def
proof
  fix s
  show "this (snd (try_catch m h s)) = this s"
  proof (cases "m s")
    case (Pair r s')
    from assms(1) Pair have s': "this s' = this s"
      unfolding keeps_this_def by (metis snd_conv)
    show ?thesis
    proof (cases r)
      case (Inl e)
      from assms(2) have "this (snd (h e s')) = this s'"
        unfolding keeps_this_def by blast
      with Pair Inl s' show ?thesis by (simp add: try_catch_def)
    next
      case (Inr x)
      with Pair s' show ?thesis by (simp add: try_catch_def)
    qed
  qed
qed

lemma keeps_this_with_this [simp]:
  "(\<And>t. keeps_this (f t)) \<Longrightarrow> keeps_this (with_this f)"
  by (simp add: keeps_this_def with_this_def)

lemma keeps_this_getATC [simp]: "keeps_this (getATC S p m ow)"
  by (simp add: getATC_def call_defs)

lemma keeps_this_getOrCreateWallet: "keeps_this (getOrCreateWallet S)"
  by (simp add: getOrCreateWallet_def Let_def)

lemma keeps_this_createWallet: "keeps_this (createWallet S)"
  by (simp add: createWallet_def Let_def)

lemma keeps_this_deployTokenContract: "keeps_this (deployTokenContract S tn ts im)"
  by (simp add: deployTokenContract_def call_defs Let_def split: list.split prod.split)

lemma keeps_this_getVaultWalletAddress: "keeps_this (getVaultWalletAddress S)"
  by (simp add: getVaultWalletAddress_def)

lemma keeps_this_getTokenInstanceAndDecimals: "keeps_this (getTokenInstanceAndDecimals S ta)"
  by (simp add: getTokenInstanceAndDecimals_def call_defs)

lemma keeps_this_getSolBalance: "keeps_this (getSolBalance S)"
  by (simp add: getSolBalance_def call_defs)

lemma keeps_this_mintTokensToUser: "keeps_this (mintTokensToUser S ta ua a)"
  by (simp add: mintTokensToUser_def call_defs Let_def)

lemma keeps_this_burnTokensFromUser: "keeps_this (burnTokensFromUser S ta w58 a)"
  by (simp add: burnTokensFromUser_def call_defs Let_def)

lemma keeps_this_getWalletTokenBalance: "keeps_this (getWalletTokenBalance S ua)"
  by (simp add: getWalletTokenBalance_def call_defs Let_def)

lemma keeps_this_transferTokens: "keeps_this (transferTokens S ta ua a w58)"
  by (simp add: transferTokens_def call_defs Let_def)

lemma keeps_thisD: "keeps_this m \<Longrightarrow> this (snd (m s)) = this s"
  by (simp add: keeps_this_def)

text \<open>
  C7. After construction, no operation of the service changes a field of the service object:
  \<^verbatim>\<open>connection\<close>, \<^verbatim>\<open>walletFilePath\<close>, \<^verbatim>\<open>mainNet\<close> and \<^verbatim>\<open>wallet\<close> are the same after a
  call as before it, whatever the arguments, the state and the behaviour of the SDK, and
  whether the call returns or throws. The fields are assigned by the constructor only.
\<close>

theorem operations_leave_service_fields_unchanged:
  "this (snd (createWallet S s)) = this s
   \<and> this (snd (deployTokenContract S tokenName tokenSymbol imageUri s)) = this s
   \<and> this (snd (getVaultWalletAddress S s)) = this s
   \<and> this (snd (getTokenInstanceAndDecimals S tokenAddress s)) = this s
   \<and> this (snd (getATC S payerKey mintKey ownerKey s)) = this s
   \<and> this (snd (getSolBalance S s)) = this s
   \<and> this (snd (mintTokensToUser S tokenAddress toAddress a s)) = this s
   \<and> this (snd (burnTokensFromUser S tokenAddress wallet58 a s)) = this s
   \<and> this (snd (getWalletTokenBalance S userAddress s)) = this s
   \<and> this (snd (transferTokens S tokenAddress toAddress a wallet58 s)) = this s
   \<and> this (snd (getOrCreateWallet S s)) = this s"
  by (simp add: keeps_thisD keeps_this_getOrCreateWallet keeps_this_createWallet
      keeps_this_deployTokenContract keeps_this_getVaultWalletAddress
      keeps_this_getTokenInstanceAndDecimals keeps_this_getSolBalance
      keeps_this_mintTokensToUser keeps_this_burnTokensFromUser
      keeps_this_getWalletTokenBalance keeps_this_transferTokens)


section \<open>What the operations throw\<close>

text \<open>
  Each operation is characterised by the SDK calls of its own run: the pure calls at the
  arguments it gives them, and the logged calls with the outcome they had. The value thrown
  is the error of the call that threw, as it is.
\<close>

lemma forEach_tokenAccount_error:
  "forEach_tokenAccount S accs acc = Inl e \<longleftrightarrow> first_decode_error S accs = Some e"
  by (induction accs arbitrary: acc) (auto split: sum.splits)

lemma deployTokenContract_throws:
  "fst (deployTokenContract S tn ts im s) = Inl e \<longleftrightarrow>
   e \<in> set (failed_calls (new_calls s (snd (deployTokenContract S tn ts im s))))"
  by (auto simp: deployTokenContract_def prog_defs call_defs Let_def new_calls_def
      split: prod.split sum.split)

lemma getTokenInstanceAndDecimals_throws:
  "fst (getTokenInstanceAndDecimals S ta s) = Inl e \<longleftrightarrow>
   new_PublicKey S ta = Inl e
   \<or> e \<in> set (failed_calls (new_calls s (snd (getTokenInstanceAndDecimals S ta s))))"
  by (auto simp: getTokenInstanceAndDecimals_def prog_defs call_defs Let_def new_calls_def
      split: prod.split sum.split)

lemma getSolBalance_throws:
  "fst (getSolBalance S s) = Inl e \<longleftrightarrow>
   e \<in> set (failed_calls (new_calls s (snd (getSolBalance S s))))"
  by (auto simp: getSolBalance_def prog_defs call_defs Let_def new_calls_def
      split: prod.split sum.split)

lemma mintTokensToUser_throws:
  "fst (mintTokensToUser S ta ua a s) = Inl e \<longleftrightarrow>
   new_PublicKey S ta = Inl e
   \<or> (\<exists>m. new_PublicKey S ta = Inr m \<and> new_PublicKey S ua = Inl e)
   \<or> e \<in> set (failed_calls (new_calls s (snd (mintTokensToUser S ta ua a s))))"
  by (auto simp: mintTokensToUser_def getATC_def prog_defs call_defs Let_def new_calls_def
      split: prod.split sum.split)

lemma burnTokensFromUser_throws:
  "fst (burnTokensFromUser S ta w58 a s) = Inl e \<longleftrightarrow>
   base58_decode S w58 = Inl e
   \<or> (\<exists>sk. base58_decode S w58 = Inr sk \<and> new_PublicKey S ta = Inl e)
   \<or> (\<exists>sk m err. base58_decode S w58 = Inr sk \<and> new_PublicKey S ta = Inr m
         \<and> Keypair_fromSecretKey S sk = Inl err
         \<and> e = StatusError ''Invalid secret key provided for burnTokensFromUser'' 400)
   \<or> e \<in> set (failed_calls (new_calls s (snd (burnTokensFromUser S ta w58 a s))))"
  by (auto simp: burnTokensFromUser_def getATC_def prog_defs call_defs Let_def new_calls_def
      split: prod.split sum.split)

lemma getWalletTokenBalance_throws:
  "fst (getWalletTokenBalance S ua s) = Inl e \<longleftrightarrow>
   new_PublicKey S ua = Inl e
   \<or> e \<in> set (failed_calls (new_calls s (snd (getWalletTokenBalance S ua s))))
   \<or> (\<exists>ownerKey accs c'. new_PublicKey S ua = Inr ownerKey
         \<and> getTokenAccountsByOwner S (ext s) (connection (this s)) ownerKey
              (TOKEN_2022_PROGRAM_ID S) = (Inr accs, c')
         \<and> first_decode_error S accs = Some e)"
  by (auto simp: getWalletTokenBalance_def prog_defs call_defs Let_def new_calls_def
      forEach_tokenAccount_error split: prod.split sum.split)

lemma transferTokens_throws:
  "fst (transferTokens S ta ua a w58 s) = Inl e \<longleftrightarrow>
   base58_decode S w58 = Inl e
   \<or> (\<exists>sk err. base58_decode S w58 = Inr sk \<and> Keypair_fromSecretKey S sk = Inl err
         \<and> e = StatusError ''Invalid secret key provided for transferTokens'' 400)
   \<or> (\<exists>sk kp. base58_decode S w58 = Inr sk \<and> Keypair_fromSecretKey S sk = Inr kp
         \<and> new_PublicKey S ta = Inl e)
   \<or> (\<exists>sk kp m. base58_decode S w58 = Inr sk \<and> Keypair_fromSecretKey S sk = Inr kp
         \<and> new_PublicKey S ta = Inr m \<and> new_PublicKey S ua = Inl e)
   \<or> e \<in> set (failed_calls (new_calls s (snd (transferTokens S ta ua a w58 s))))"
  by (auto simp: transferTokens_def getATC_def prog_defs call_defs Let_def new_calls_def
      split: prod.split sum.split)

lemma getSolBalance_result:
  "fst (getSolBalance S s) =
   fst (getBalance S (ext s) (connection (this s)) (publicKey (wallet (this s))))"
  by (simp add: getSolBalance_def call_defs prog_defs split: prod.splits sum.splits)

lemma getSolBalance_down:
  "fst (getSolBalance sdk_down state1) = Inl (Error ''fetch failed'')"
  by (simp add: getSolBalance_result sdk_down_def sdk0_def state1_def)

lemma getSolBalance_down_log:
  "new_calls state1 (snd (getSolBalance sdk_down state1)) =
     [GetBalance (connection service1) [0] (Inl (Error ''fetch failed''))]"
  by (simp add: getSolBalance_def call_defs prog_defs new_calls_def sdk_down_def sdk0_def
      state1_def service1_def)

text \<open>
  C2, as the spec states it, fails on the code: with the network down the balance query of
  the SDK throws an \<^verbatim>\<open>Error\<close>, and \<^verbatim>\<open>getSolBalance\<close> throws that same \<^verbatim>\<open>Error\<close> to its
  caller. It is not turned into an object with a status code.
\<close>

theorem sdk_error_is_not_wrapped_counterexample:
  "getBalance sdk_down (ext state1) (connection (this state1)) (publicKey (wallet (this state1)))
     = (Inl (Error ''fetch failed''), 1)
   \<and> fst (getSolBalance sdk_down state1) = Inl (Error ''fetch failed'')
   \<and> \<not> carries_status (Error ''fetch failed'')"
  by (simp add: getSolBalance_down) (simp add: sdk_down_def sdk0_def state1_def)

text \<open>
  C2, amended. For each of the seven operations, an error that an SDK call of its run throws
  reaches the caller as it is, with no status code added, and the operation throws nothing
  else: it throws \<open>e\<close> exactly when \<open>e\<close> is the error of a logged call of this run, or the
  error of one of its pure library calls (\<^verbatim>\<open>new PublicKey\<close>, \<^verbatim>\<open>base58.decode\<close>,
  \<^verbatim>\<open>AccountLayout.decode\<close>) at the arguments of this run, reached because the calls before it
  returned. The operations with a catch block log the error and throw it again;
  \<^verbatim>\<open>deployTokenContract\<close> and \<^verbatim>\<open>getWalletTokenBalance\<close> do not catch it. The one exception
  is the secret key that \<^verbatim>\<open>Keypair.fromSecretKey\<close> rejects in \<^verbatim>\<open>burnTokensFromUser\<close> and
  \<^verbatim>\<open>transferTokens\<close>: there the operation throws an object with a message and status 400
  in place of the library's error. For \<^verbatim>\<open>getSolBalance\<close> the outcome is the outcome of the
  SDK's balance query itself.
\<close>

theorem operations_throw_sdk_errors_unchanged:
  "(fst (deployTokenContract S tokenName tokenSymbol imageUri s) = Inl e \<longleftrightarrow>
      e \<in> set (failed_calls
                 (new_calls s (snd (deployTokenContract S tokenName tokenSymbol imageUri s)))))
   \<and> (fst (getTokenInstanceAndDecimals S tokenAddress s) = Inl e \<longleftrightarrow>
        new_PublicKey S tokenAddress = Inl e
        \<or> e \<in> set (failed_calls
                     (new_calls s (snd (getTokenInstanceAndDecimals S tokenAddress s)))))
   \<and> (fst (getSolBalance S s) = Inl e \<longleftrightarrow>
        e \<in> set (failed_calls (new_calls s (snd (getSolBalance S s)))))
   \<and> fst (getSolBalance S s) =
       fst (getBalance S (ext s) (connection (this s)) (publicKey (wallet (this s))))
   \<and> (fst (mintTokensToUser S tokenAddress toAddress a s) = Inl e \<longleftrightarrow>
        new_PublicKey S tokenAddress = Inl e
        \<or> (\<exists>m. new_PublicKey S tokenAddress = Inr m \<and> new_PublicKey S toAddress = Inl e)
        \<or> e \<in> set (failed_calls
                     (new_calls s (snd (mintTokensToUser S tokenAddress toAddress a s)))))
   \<and> (fst (burnTokensFromUser S tokenAddress wallet58 a s) = Inl e \<longleftrightarrow>
        base58_decode S wallet58 = Inl e
        \<or> (\<exists>sk. base58_decode S wallet58 = Inr sk \<and> new_PublicKey S tokenAddress = Inl e)
        \<or> (\<exists>sk m err. base58_decode S wallet58 = Inr sk \<and> new_PublicKey S tokenAddress = Inr m
              \<and> Keypair_fromSecretKey S sk = Inl err
              \<and> e = StatusError ''Invalid secret key provided for burnTokensFromUser'' 400)
        \<or> e \<in> set (failed_calls
                     (new_calls s (snd (burnTokensFromUser S tokenAddress wallet58 a s)))))
   \<and> (fst (getWalletTokenBalance S userAddress s) = Inl e \<longleftrightarrow>
        new_PublicKey S userAddress = Inl e
        \<or> e \<in> set (failed_calls (new_calls s (snd (getWalletTokenBalance S userAddress s))))
        \<or> (\<exists>ownerKey accs c'. new_PublicKey S userAddress = Inr ownerKey
              \<and> getTokenAccountsByOwner S (ext s) (connection (this s)) ownerKey
                   (TOKEN_2022_PROGRAM_ID S) = (Inr accs, c')
              \<and> first_decode_error S accs = Some e))
   \<and> (fst (transferTokens S tokenAddress toAddress a wallet58 s) = Inl e \<longleftrightarrow>
        base58_decode S wallet58 = Inl e
        \<or> (\<exists>sk err. base58_decode S wallet58 = Inr sk \<and> Keypair_fromSecretKey S sk = Inl err
              \<and> e = StatusError ''Invalid secret key provided for transferTokens'' 400)
        \<or> (\<exists>sk kp. base58_decode S wallet58 = Inr sk \<and> Keypair_fromSecretKey S sk = Inr kp
              \<and> new_PublicKey S tokenAddress = Inl e)
        \<or> (\<exists>sk kp m. base58_decode S wallet58 = Inr sk \<and> Keypair_fromSecretKey S sk = Inr kp
              \<and> new_PublicKey S tokenAddress = Inr m \<and> new_PublicKey S toAddress = Inl e)
        \<or> e \<in> set (failed_calls
                     (new_calls s (snd (transferTokens S tokenAddress toAddress a wallet58 s)))))"
  by (intro conjI deployTokenContract_throws getTokenInstanceAndDecimals_throws
      getSolBalance_throws getSolBalance_result mintTokensToUser_throws
      burnTokensFromUser_throws getWalletTokenBalance_throws transferTokens_throws)

theorem operations_throw_sdk_errors_unchanged_witness:
  "failed_calls (new_calls state1 (snd (getSolBalance sdk_down state1))) = [Error ''fetch failed'']
   \<and> fst (getSolBalance sdk_down state1) = Inl (Error ''fetch failed'')
   \<and> new_PublicKey sdk0 [] = Inl (Error ''Invalid public key input'')
   \<and> fst (mintTokensToUser sdk0 [] ''21'' 3 state1) = Inl (Error ''Invalid public key input'')"
proof -
  have pk: "new_PublicKey sdk0 [] = Inl (Error ''Invalid public key input'')"
    by (simp add: sdk0_def)
  from operations_throw_sdk_errors_unchanged
      [where S = sdk_down and s = state1 and e = "Error ''fetch failed''"]
    operations_throw_sdk_errors_unchanged
      [where S = sdk0 and s = state1 and e = "Error ''Invalid public key input''"
         and tokenAddress = "[]" and toAddress = "''21''" and a = 3]
  show ?thesis
    by (simp add: getSolBalance_down_log pk)
qed

section \<open>Construction: the credential file\<close>

lemmas ctor_defs = constructor_def getOrCreateWallet_def assign_connection_def
  assign_mainNet_def assign_walletFilePath_def assign_wallet_def

lemma ToUint8_byte_number: "ToUint8 (byte_number b) = b"
proof -
  have "ToUint8 (real (unat b)) = word_of_int \<lfloor>real (unat b)\<rfloor>"
    unfolding ToUint8_def by (simp only: of_nat_0_le_iff if_True)
  also have "\<lfloor>real (unat b)\<rfloor> = int (unat b)" by (rule floor_of_nat)
  also have "word_of_int (int (unat b)) = b" by simp
  finally show ?thesis by (simp only: byte_number_def)
qed

lemma numbers_of_bytes:
  "numbers_of (map (\<lambda>b. JNumber (byte_number b)) bs) = Some (map byte_number bs)"
  by (induction bs) simp_all

text \<open>Reading back the array that \<^verbatim>\<open>Array.from\<close> made of a byte sequence gives the bytes.\<close>

lemma new_Uint8Array_Array_from: "new_Uint8Array S (Some (Array_from bs)) = Inr bs"
  by (simp add: new_Uint8Array_def Array_from_def numbers_of_bytes ToUint8_byte_number comp_def)

text \<open>The file is absent and can be written: the generate-and-write branch.\<close>

lemma constructor_absent:
  assumes "files s ''solWallet.json'' = None" and "Keypair_generate S (ext s) = (kp, c')"
    and "\<not> denied s ''solWallet.json''"
  shows "fst (constructor S s) = Inr ()"
    and "this (snd (constructor S s)) =
           \<lparr>connection = new_Connection (clusterApiUrl S ''devnet'') ''confirmed'',
            walletFilePath = ''solWallet.json'', mainNet = False, wallet = kp\<rparr>"
    and "files (snd (constructor S s)) =
           (files s)(''solWallet.json'' \<mapsto>
              JSON_stringify S (JObject [(''privateKey'', Array_from (secretKey kp))]))"
    and "new_calls s (snd (constructor S s)) = [KeypairGenerate kp]"
    and "denied (snd (constructor S s)) = denied s"
  using assms by (simp_all add: ctor_defs prog_defs Let_def new_calls_def)

lemma constructor_absent_denied:
  assumes "files s ''solWallet.json'' = None" and "denied s ''solWallet.json''"
  shows "fst (constructor S s) =
     Inl (StatusError ''Error reading or creating solana wallet: EACCES: permission denied'' 500)"
  using assms by (simp add: ctor_defs prog_defs Let_def split: prod.split)


lemma constructor_present_loaded:
  assumes "files s ''solWallet.json'' = Some contents" and "\<not> denied s ''solWallet.json''"
    and "JSON_parse S contents = Inr walletData" and "get_privateKey walletData = Inr pk"
    and "new_Uint8Array S pk = Inr secret" and "Keypair_fromSecretKey S secret = Inr w"
  shows "fst (constructor S s) = Inr ()"
    and "this (snd (constructor S s)) =
           \<lparr>connection = new_Connection (clusterApiUrl S ''devnet'') ''confirmed'',
            walletFilePath = ''solWallet.json'', mainNet = False, wallet = w\<rparr>"
  using assms by (simp_all add: ctor_defs prog_defs Let_def)



lemma constructor_absent_inversion:
  assumes "files s ''solWallet.json'' = None" and "fst (constructor S s) = Inr u"
  shows "wallet (this (snd (constructor S s))) = fst (Keypair_generate S (ext s))
    \<and> files (snd (constructor S s)) ''solWallet.json'' =
        Some (JSON_stringify S
          (JObject [(''privateKey'', Array_from (secretKey (wallet (this (snd (constructor S s))))))]))
    \<and> generated_keypairs (new_calls s (snd (constructor S s))) =
        [wallet (this (snd (constructor S s)))]"
proof -
  obtain kp c' where g: "Keypair_generate S (ext s) = (kp, c')"
    by (cases "Keypair_generate S (ext s)")
  have nd: "\<not> denied s ''solWallet.json''"
    using assms constructor_absent_denied [of s S] by auto
  from constructor_absent(2-4) [OF assms(1) g nd] g show ?thesis by simp
qed

text \<open>Two runs of the constructor on the small instance: first start, and a later start.\<close>

lemma constructor_state0:
  "fst (constructor sdk0 state0) = Inr ()"
  "this (snd (constructor sdk0 state0)) = service1"
  "files (snd (constructor sdk0 state0)) ''solWallet.json'' = Some walletText0"
  "new_calls state0 (snd (constructor sdk0 state0)) =
     [KeypairGenerate \<lparr>publicKey = [0], secretKey = [0, 0]\<rparr>]"
proof -
  have a: "files state0 ''solWallet.json'' = None" by (simp add: state0_def)
  have g: "Keypair_generate sdk0 (ext state0) = (\<lparr>publicKey = [0], secretKey = [0, 0]\<rparr>, 1)"
    by (simp add: sdk0_def state0_def)
  have nd: "\<not> denied state0 ''solWallet.json''" by (simp add: state0_def)
  have j: "JSON_stringify sdk0 (JObject [(''privateKey'', Array_from [0, 0])]) = walletText0"
    by (simp add: sdk0_def walletJson0_def Array_from_def byte_number_def)
  show "fst (constructor sdk0 state0) = Inr ()"
    by (rule constructor_absent(1) [OF a g nd])
  show "this (snd (constructor sdk0 state0)) = service1"
    using constructor_absent(2) [OF a g nd]
    by (simp add: service1_def new_Connection_def sdk0_def)
  show "files (snd (constructor sdk0 state0)) ''solWallet.json'' = Some walletText0"
    using constructor_absent(3) [OF a g nd] j by simp
  show "new_calls state0 (snd (constructor sdk0 state0)) =
     [KeypairGenerate \<lparr>publicKey = [0], secretKey = [0, 0]\<rparr>]"
    by (rule constructor_absent(4) [OF a g nd])
qed

lemma constructor_state1:
  "fst (constructor sdk0 state1) = Inr ()"
  "this (snd (constructor sdk0 state1)) = service1"
proof -
  have a: "files state1 ''solWallet.json'' = Some walletText0" by (simp add: state1_def)
  have nd: "\<not> denied state1 ''solWallet.json''" by (simp add: state1_def)
  have p: "JSON_parse sdk0 walletText0 = Inr walletJson0" by (simp add: sdk0_def)
  have k: "get_privateKey walletJson0 = Inr (Some (Array_from [0, 0]))"
    by (simp add: walletJson0_def Array_from_def byte_number_def)
  have f: "Keypair_fromSecretKey sdk0 [0, 0] = Inr \<lparr>publicKey = [0], secretKey = [0, 0]\<rparr>"
    by (simp add: sdk0_def)
  show "fst (constructor sdk0 state1) = Inr ()"
    by (rule constructor_present_loaded(1) [OF a nd p k new_Uint8Array_Array_from f])
  show "this (snd (constructor sdk0 state1)) = service1"
    using constructor_present_loaded(2) [OF a nd p k new_Uint8Array_Array_from f]
    by (simp add: service1_def new_Connection_def sdk0_def)
qed



text \<open>
  C4. The file that a first start writes is the JSON text of an object whose \<^verbatim>\<open>privateKey\<close>
  field is the array of the secret key's bytes, each byte as a number. A later start that
  finds these contents and can read them hands to the SDK exactly the bytes of that secret
  key, so its wallet is the keypair the SDK builds from them and carries the same secret key.
  The two laws of the platform and of the SDK that the round trip rests on are hypotheses:
  parsing the text that \<^verbatim>\<open>JSON.stringify\<close> made of this object gives the object back, and
  \<^verbatim>\<open>Keypair.fromSecretKey\<close> accepts the secret key of the generated keypair and returns a
  keypair holding it.
\<close>

theorem credential_file_round_trip:
  assumes first: "files s ''solWallet.json'' = None" "fst (constructor S s) = Inr u"
    and kp: "kp = fst (Keypair_generate S (ext s))"
    and json: "JSON_parse S (JSON_stringify S (JObject [(''privateKey'', Array_from (secretKey kp))]))
                 = Inr (JObject [(''privateKey'', Array_from (secretKey kp))])"
    and key: "Keypair_fromSecretKey S (secretKey kp) = Inr kp'" "secretKey kp' = secretKey kp"
    and later: "files t ''solWallet.json'' = files (snd (constructor S s)) ''solWallet.json''"
      "\<not> denied t ''solWallet.json''"
  shows "files (snd (constructor S s)) ''solWallet.json'' =
           Some (JSON_stringify S
             (JObject [(''privateKey'', JArray (map (\<lambda>b. JNumber (real (unat b))) (secretKey kp)))]))
         \<and> fst (constructor S t) = Inr ()
         \<and> wallet (this (snd (constructor S t))) = kp'
         \<and> secretKey (wallet (this (snd (constructor S t)))) =
             secretKey (wallet (this (snd (constructor S s))))"
proof -
  let ?j = "JObject [(''privateKey'', Array_from (secretKey kp))]"
  from constructor_absent_inversion [OF first] kp
  have w: "wallet (this (snd (constructor S s))) = kp"
    and f: "files (snd (constructor S s)) ''solWallet.json'' = Some (JSON_stringify S ?j)"
    by simp_all
  from f later(1) have ft: "files t ''solWallet.json'' = Some (JSON_stringify S ?j)"
    by simp
  have pk: "get_privateKey ?j = Inr (Some (Array_from (secretKey kp)))"
    by simp
  note run = constructor_present_loaded
    [OF ft later(2) json pk new_Uint8Array_Array_from key(1)]
  have "Array_from (secretKey kp) = JArray (map (\<lambda>b. JNumber (real (unat b))) (secretKey kp))"
    by (simp only: Array_from_def byte_number_def)
  with f run w key(2) show ?thesis by simp
qed

theorem credential_file_round_trip_witness:
  "files state0 ''solWallet.json'' = None
   \<and> fst (constructor sdk0 state0) = Inr ()
   \<and> files (snd (constructor sdk0 state0)) ''solWallet.json'' = Some walletText0
   \<and> files state1 ''solWallet.json'' = Some walletText0
   \<and> fst (constructor sdk0 state1) = Inr ()
   \<and> secretKey (wallet (this (snd (constructor sdk0 state1)))) = [0, 0]
   \<and> secretKey (wallet (this (snd (constructor sdk0 state0)))) = [0, 0]"
proof -
  have first: "files state0 ''solWallet.json'' = None" by (simp add: state0_def)
  have kp: "\<lparr>publicKey = [0], secretKey = [0, 0]\<rparr> = fst (Keypair_generate sdk0 (ext state0))"
    by (simp add: sdk0_def state0_def)
  have json: "JSON_parse sdk0 (JSON_stringify sdk0
      (JObject [(''privateKey'', Array_from (secretKey \<lparr>publicKey = [0], secretKey = [0, 0]\<rparr>))]))
      = Inr (JObject [(''privateKey'', Array_from (secretKey \<lparr>publicKey = [0], secretKey = [0, 0]\<rparr>))])"
    by (simp add: sdk0_def walletJson0_def Array_from_def byte_number_def)
  have key: "Keypair_fromSecretKey sdk0 (secretKey \<lparr>publicKey = [0], secretKey = [0, 0]\<rparr>)
      = Inr \<lparr>publicKey = [0], secretKey = [0, 0]\<rparr>"
    by (simp add: sdk0_def)
  have later: "files state1 ''solWallet.json'' =
      files (snd (constructor sdk0 state0)) ''solWallet.json''"
    by (simp add: constructor_state0 state1_def)
  have nd: "\<not> denied state1 ''solWallet.json''" by (simp add: state1_def)
  from credential_file_round_trip
    [OF first constructor_state0(1) kp json key _ later nd]
  show ?thesis
    by (simp add: constructor_state0 constructor_state1 service1_def first)
      (simp add: state1_def)
qed

section \<open>Token deployment\<close>







section \<open>The amount handed to the SDK\<close>

subsection \<open>Products of numbers\<close>

lemma round_half_even_of_int [simp]: "round_half_even (of_int z) = z"
  by (simp add: round_half_even_def)








subsection \<open>What the three operations pass\<close>










section \<open>A secret key that the SDK rejects\<close>

lemma transferTokens_invalid_key:
  assumes "base58_decode S w58 = Inr sk" and "Keypair_fromSecretKey S sk = Inl err"
  shows "transferTokens S ta ua a w58 s =
     (Inl (StatusError ''Invalid secret key provided for transferTokens'' 400), s)"
  using assms by (simp add: transferTokens_def prog_defs)

lemma burnTokensFromUser_invalid_key:
  assumes "base58_decode S w58 = Inr sk" and "Keypair_fromSecretKey S sk = Inl err"
    and "new_PublicKey S ta = Inr m"
  shows "burnTokensFromUser S ta w58 a s =
     (Inl (StatusError ''Invalid secret key provided for burnTokensFromUser'' 400),
      s\<lparr>console := console s @
          [[''Error burning tokens:'', ''Invalid secret key provided for burnTokensFromUser'']]\<rparr>)"
  using assms by (simp add: burnTokensFromUser_def prog_defs)

lemma burnTokensFromUser_invalid_key_frame:
  assumes "base58_decode S w58 = Inr sk" and "Keypair_fromSecretKey S sk = Inl err"
  shows "calls (snd (burnTokensFromUser S ta w58 a s)) = calls s"
    and "ext (snd (burnTokensFromUser S ta w58 a s)) = ext s"
    and "files (snd (burnTokensFromUser S ta w58 a s)) = files s"
  using assms by (simp_all add: burnTokensFromUser_def prog_defs split: sum.split)

lemma burnTokensFromUser_bad_address:
  "fst (burnTokensFromUser sdk0 [] ''12'' 1 state1) = Inl (Error ''Invalid public key input'')"
  by (simp add: burnTokensFromUser_def prog_defs sdk0_def)

text \<open>
  C8, as stated, fails for \<^verbatim>\<open>burnTokensFromUser\<close>: the token address is turned into a public
  key before the secret key is checked. With an empty token address and a wallet argument
  that decodes to two bytes which are no secret key, the call throws the \<^verbatim>\<open>Error\<close> of the
  public key constructor, which has no status.
\<close>

theorem burn_with_bad_token_address_counterexample:
  "base58_decode sdk0 ''12'' = Inr [0, 1]
   \<and> Keypair_fromSecretKey sdk0 [0, 1] = Inl (Error ''provided secretKey is invalid'')
   \<and> fst (burnTokensFromUser sdk0 [] ''12'' 1 state1) = Inl (Error ''Invalid public key input'')
   \<and> \<not> carries_status (Error ''Invalid public key input'')"
  by (simp add: burnTokensFromUser_bad_address) (simp add: sdk0_def)

text \<open>
  C8, amended. When the wallet argument decodes from base58 to bytes that the SDK rejects as
  a secret key, \<^verbatim>\<open>transferTokens\<close> throws the object with status 400 and leaves the state as
  it was; \<^verbatim>\<open>burnTokensFromUser\<close> throws the object with status 400 provided that the token
  address is accepted as a public key, and in every case it makes no logged SDK call and
  changes neither the state outside the process nor the files. So no account is created and
  no transaction is submitted on this path.
\<close>

theorem rejected_secret_key_throws_400_before_any_call:
  assumes "base58_decode S wallet58 = Inr sk" and "Keypair_fromSecretKey S sk = Inl err"
  shows "transferTokens S tokenAddress toAddress a wallet58 s =
           (Inl (StatusError ''Invalid secret key provided for transferTokens'' 400), s)
       \<and> (\<forall>m. new_PublicKey S tokenAddress = Inr m \<longrightarrow>
            fst (burnTokensFromUser S tokenAddress wallet58 a s) =
              Inl (StatusError ''Invalid secret key provided for burnTokensFromUser'' 400))
       \<and> new_calls s (snd (burnTokensFromUser S tokenAddress wallet58 a s)) = []
       \<and> ext (snd (burnTokensFromUser S tokenAddress wallet58 a s)) = ext s
       \<and> files (snd (burnTokensFromUser S tokenAddress wallet58 a s)) = files s"
  using transferTokens_invalid_key [OF assms]
    burnTokensFromUser_invalid_key [OF assms]
    burnTokensFromUser_invalid_key_frame [OF assms]
  by (simp add: new_calls_def)

theorem rejected_secret_key_throws_400_before_any_call_witness:
  "base58_decode sdk0 ''12'' = Inr [0, 1]
   \<and> Keypair_fromSecretKey sdk0 [0, 1] = Inl (Error ''provided secretKey is invalid'')
   \<and> new_PublicKey sdk0 ''12'' = Inr [0, 1]
   \<and> transferTokens sdk0 ''12'' ''21'' 1 ''12'' state1 =
       (Inl (StatusError ''Invalid secret key provided for transferTokens'' 400), state1)
   \<and> fst (burnTokensFromUser sdk0 ''12'' ''12'' 1 state1) =
       Inl (StatusError ''Invalid secret key provided for burnTokensFromUser'' 400)
   \<and> new_calls state1 (snd (burnTokensFromUser sdk0 ''12'' ''12'' 1 state1)) = []"
proof -
  have d: "base58_decode sdk0 ''12'' = Inr [0, 1]" by (simp add: sdk0_def)
  have k: "Keypair_fromSecretKey sdk0 [0, 1] = Inl (Error ''provided secretKey is invalid'')"
    by (simp add: sdk0_def)
  have pk: "new_PublicKey sdk0 ''12'' = Inr [0, 1]" by (simp add: sdk0_def)
  from rejected_secret_key_throws_400_before_any_call
    [OF d k, of "''12''" "''21''" 1 state1]
  show ?thesis using d k pk by simp
qed

section \<open>New wallets and token balances\<close>

text \<open>
  C9. \<^verbatim>\<open>createWallet\<close> generates one keypair and returns the base58 form of its secret key
  together with the base58 form of its public key. Decoding the returned private key gives
  the secret key back, and the keypair that the SDK builds from it has the public key whose
  base58 form is the returned address. Two laws of the libraries are hypotheses: \<^verbatim>\<open>decode\<close>
  inverts \<^verbatim>\<open>encode\<close> on this key, and \<^verbatim>\<open>Keypair.fromSecretKey\<close> on the secret key of the
  generated keypair returns a keypair with the same public key.
\<close>

theorem createWallet_returns_consistent_pair:
  assumes gen: "Keypair_generate S (ext s) = (kp, c')"
    and b58: "base58_decode S (base58_encode S (secretKey kp)) = Inr (secretKey kp)"
    and key: "Keypair_fromSecretKey S (secretKey kp) = Inr kp'" "publicKey kp' = publicKey kp"
  shows "\<exists>r. fst (createWallet S s) = Inr r
     \<and> new_calls s (snd (createWallet S s)) = [KeypairGenerate kp]
     \<and> privateKey r = base58_encode S (secretKey kp)
     \<and> base58_decode S (privateKey r) = Inr (secretKey kp)
     \<and> Keypair_fromSecretKey S (secretKey kp) = Inr kp'
     \<and> wallet_address r = toBase58 S (publicKey kp')"
  using assms by (simp add: createWallet_def prog_defs Let_def new_calls_def)

theorem createWallet_returns_consistent_pair_witness:
  "Keypair_generate sdk0 (ext state1) = (\<lparr>publicKey = [1], secretKey = [1, 1]\<rparr>, 2)
   \<and> base58_decode sdk0 (base58_encode sdk0 [1, 1]) = Inr [1, 1]
   \<and> Keypair_fromSecretKey sdk0 [1, 1] = Inr \<lparr>publicKey = [1], secretKey = [1, 1]\<rparr>
   \<and> (\<exists>r. fst (createWallet sdk0 state1) = Inr r
        \<and> new_calls state1 (snd (createWallet sdk0 state1)) =
            [KeypairGenerate \<lparr>publicKey = [1], secretKey = [1, 1]\<rparr>]
        \<and> privateKey r = ''22''
        \<and> base58_decode sdk0 (privateKey r) = Inr [1, 1]
        \<and> wallet_address r = ''2'')"
proof -
  have g: "Keypair_generate sdk0 (ext state1) = (\<lparr>publicKey = [1], secretKey = [1, 1]\<rparr>, 2)"
    by (simp add: sdk0_def state1_def)
  have b: "base58_decode sdk0 (base58_encode sdk0 (secretKey \<lparr>publicKey = [1], secretKey = [1, 1]\<rparr>))
      = Inr (secretKey \<lparr>publicKey = [1], secretKey = [1, 1]\<rparr>)"
    by (simp add: sdk0_def)
  have k: "Keypair_fromSecretKey sdk0 (secretKey \<lparr>publicKey = [1], secretKey = [1, 1]\<rparr>)
      = Inr \<lparr>publicKey = [1], secretKey = [1, 1]\<rparr>"
    by (simp add: sdk0_def)
  have e: "base58_encode sdk0 [1, 1] = ''22''" "toBase58 sdk0 [1] = ''2''"
    by (simp_all add: sdk0_def)
  from createWallet_returns_consistent_pair [OF g b k]
  show ?thesis using g b k e by simp
qed

lemma forEach_tokenAccount_decoded:
  "map (\<lambda>ta. AccountLayout_decode S (account_data ta)) accs = map Inr ds \<Longrightarrow>
   forEach_tokenAccount S accs acc =
     Inr (acc @ map (\<lambda>d. \<lparr>token_address = toBase58 S (mint d), balance = amount d\<rparr>) ds)"
proof (induction accs arbitrary: acc ds)
  case Nil
  then show ?case by simp
next
  case (Cons ta accs)
  then obtain d ds' where ds: "ds = d # ds'" by (cases ds) auto
  with Cons.prems have "AccountLayout_decode S (account_data ta) = Inr d"
    and "map (\<lambda>ta. AccountLayout_decode S (account_data ta)) accs = map Inr ds'"
    by simp_all
  with Cons.IH [of ds'] ds show ?case by simp
qed

text \<open>
  C10. When the address is accepted as a public key, the query for the token accounts that
  this key owns under the Token-2022 program returns, and the data of each account decodes,
  \<^verbatim>\<open>getWalletTokenBalance\<close> returns one entry per account, in the order of the reply: the
  base58 form of the account's mint and the account's amount as it is stored. The query is
  the only call made: no mint is looked up and nothing is divided by a power of ten.
\<close>

theorem getWalletTokenBalance_returns_raw_amounts:
  assumes "new_PublicKey S userAddress = Inr ownerKey"
    and "getTokenAccountsByOwner S (ext s) (connection (this s)) ownerKey
           (TOKEN_2022_PROGRAM_ID S) = (Inr accs, c')"
    and "map (\<lambda>ta. AccountLayout_decode S (account_data ta)) accs = map Inr ds"
  shows "getWalletTokenBalance S userAddress s =
    (Inr (map (\<lambda>d. \<lparr>token_address = toBase58 S (mint d), balance = amount d\<rparr>) ds),
     s\<lparr>ext := c',
       calls := calls s @
         [GetTokenAccountsByOwner (connection (this s)) ownerKey (TOKEN_2022_PROGRAM_ID S)
            (Inr accs)]\<rparr>)"
  using assms(1,2) forEach_tokenAccount_decoded [OF assms(3), of "[]"]
  by (simp add: getWalletTokenBalance_def prog_defs call_defs)

theorem getWalletTokenBalance_returns_raw_amounts_witness:
  "new_PublicKey sdk0 ''12'' = Inr [0, 1]
   \<and> getTokenAccountsByOwner sdk0 (ext state1) (connection (this state1)) [0, 1]
        (TOKEN_2022_PROGRAM_ID sdk0) =
       (Inr [\<lparr>pubkey = [1], account_data = [7, 3]\<rparr>, \<lparr>pubkey = [2], account_data = [8, 250]\<rparr>], 1)
   \<and> fst (getWalletTokenBalance sdk0 ''12'' state1) =
       Inr [\<lparr>token_address = ''2'', balance = 3\<rparr>, \<lparr>token_address = ''2'', balance = 250\<rparr>]"
proof -
  have pk: "new_PublicKey sdk0 ''12'' = Inr [0, 1]" by (simp add: sdk0_def)
  have q: "getTokenAccountsByOwner sdk0 (ext state1) (connection (this state1)) [0, 1]
        (TOKEN_2022_PROGRAM_ID sdk0) =
       (Inr [\<lparr>pubkey = [1], account_data = [7, 3]\<rparr>, \<lparr>pubkey = [2], account_data = [8, 250]\<rparr>], 1)"
    by (simp add: sdk0_def state1_def)
  have d: "map (\<lambda>ta. AccountLayout_decode sdk0 (account_data ta))
        [\<lparr>pubkey = [1], account_data = [7, 3]\<rparr>, \<lparr>pubkey = [2], account_data = [8, 250]\<rparr>] =
      map Inr [\<lparr>mint = [7], owner = [], amount = 3\<rparr>, \<lparr>mint = [8], owner = [], amount = 250\<rparr>]"
    by (simp add: sdk0_def)
  have e: "toBase58 sdk0 [7] = ''2''" "toBase58 sdk0 [8] = ''2''" by (simp_all add: sdk0_def)
  from getWalletTokenBalance_returns_raw_amounts [OF pk q d]
  show ?thesis using pk q e by simp
qed

end
